theory Spec2Isabelle
  imports Main "HOL-Library.Word"
begin

unbundle bit_operations_syntax

section \<open>The TLS handshake state tracker (src/tls/tls_handshake_state.cpp)\<close>

subsection \<open>Handshake message kinds and their bit masks\<close>

type_synonym u32bit = "32 word"
type_synonym byte = "8 word"

text \<open>
  The enumerators of \<open>Handshake_Type\<close>, as the \<open>switch\<close> of
  \<open>bitmask_for_handshake_type\<close> lists them (the enumeration itself is declared in a
  header). The \<open>switch\<close> has a label for each of them; the \<open>throw Internal_Error\<close> behind
  it is reached only by a value that is none of the enumerators, which this datatype does
  not contain.
\<close>

datatype Handshake_Type =
    HELLO_VERIFY_REQUEST
  | HELLO_REQUEST
  | CLIENT_HELLO
  | CLIENT_HELLO_SSLV2
  | SERVER_HELLO
  | CERTIFICATE
  | CERTIFICATE_URL
  | CERTIFICATE_STATUS
  | SERVER_KEX
  | CERTIFICATE_REQUEST
  | SERVER_HELLO_DONE
  | CERTIFICATE_VERIFY
  | CLIENT_KEX
  | NEXT_PROTOCOL
  | NEW_SESSION_TICKET
  | HANDSHAKE_CCS
  | FINISHED
  | HANDSHAKE_NONE

text \<open>\<open>(1 << n)\<close> converted to \<open>u32bit\<close> is \<open>push_bit n 1\<close> on a 32-bit word.\<close>

fun bitmask_for_handshake_type :: "Handshake_Type \<Rightarrow> u32bit" where
  "bitmask_for_handshake_type HELLO_VERIFY_REQUEST = push_bit 0 1"
| "bitmask_for_handshake_type HELLO_REQUEST = push_bit 1 1"
| "bitmask_for_handshake_type CLIENT_HELLO = push_bit 2 1"
| "bitmask_for_handshake_type CLIENT_HELLO_SSLV2 = push_bit 2 1"
| "bitmask_for_handshake_type SERVER_HELLO = push_bit 3 1"
| "bitmask_for_handshake_type CERTIFICATE = push_bit 4 1"
| "bitmask_for_handshake_type CERTIFICATE_URL = push_bit 5 1"
| "bitmask_for_handshake_type CERTIFICATE_STATUS = push_bit 6 1"
| "bitmask_for_handshake_type SERVER_KEX = push_bit 7 1"
| "bitmask_for_handshake_type CERTIFICATE_REQUEST = push_bit 8 1"
| "bitmask_for_handshake_type SERVER_HELLO_DONE = push_bit 9 1"
| "bitmask_for_handshake_type CERTIFICATE_VERIFY = push_bit 10 1"
| "bitmask_for_handshake_type CLIENT_KEX = push_bit 11 1"
| "bitmask_for_handshake_type NEXT_PROTOCOL = push_bit 12 1"
| "bitmask_for_handshake_type NEW_SESSION_TICKET = push_bit 13 1"
| "bitmask_for_handshake_type HANDSHAKE_CCS = push_bit 14 1"
| "bitmask_for_handshake_type FINISHED = push_bit 15 1"
| "bitmask_for_handshake_type HANDSHAKE_NONE = 0"

subsection \<open>Errors\<close>

text \<open>
  The exceptions the file throws, as values. \<open>Unexpected_Message\<close> keeps the three values
  that \<open>confirm_transition_to\<close> writes into its message (\<open>"... got " + kind +
  " expected " + expecting mask + " received " + received mask\<close>) as fields, in that
  order; the other three carry the message text. \<open>Null_Dereference\<close> is no exception of
  the library: it stands for a call through a slot pointer that is still null, which
  C++ leaves undefined.
\<close>

datatype error =
    Internal_Error string
  | Unexpected_Message Handshake_Type u32bit u32bit
  | Decoding_Error string
  | Invalid_Argument string
  | Null_Dereference

subsection \<open>Protocol versions, cipher suites, keys, policy and messages\<close>

text \<open>
  Modelled from the spec: the class \<open>Protocol_Version\<close> and its capability predicates
  \<open>supports_ciphersuite_specific_prf\<close> and \<open>supports_negotiable_signature_algorithms\<close>
  are declared outside this file. The spec distinguishes SSLv3, TLS 1.0, TLS 1.1, TLS 1.2
  and the DTLS versions, speaks of unrecognized version values, and says of the two
  predicates: "both true only at TLS1.2+/DTLS1.2+". \<open>Other_Version\<close> is a version value
  that is none of the named ones.
\<close>

datatype Protocol_Version =
    SSL_V3
  | TLS_V10
  | TLS_V11
  | TLS_V12
  | DTLS_V10
  | DTLS_V12
  | Other_Version nat

definition supports_ciphersuite_specific_prf :: "Protocol_Version \<Rightarrow> bool" where
  "supports_ciphersuite_specific_prf v = (v = TLS_V12 \<or> v = DTLS_V12)"

definition supports_negotiable_signature_algorithms :: "Protocol_Version \<Rightarrow> bool" where
  "supports_negotiable_signature_algorithms v = (v = TLS_V12 \<or> v = DTLS_V12)"

text \<open>
  What the functions below read of their collaborators: \<open>suite.mac_algo()\<close>,
  \<open>key->algo_name()\<close>, \<open>policy.allowed_signature_hashes()\<close>, and of the stored messages
  \<open>supported_algos()\<close> (pairs of hash name and signature algorithm name),
  \<open>session_ticket()\<close> and \<open>ticket()\<close>. The accessors of \<open>Client_Hello\<close> and
  \<open>Certificate_Req\<close> carry a prefix, since a record field name is global.
  (\<open>srp_identifier\<close>, lines 199 to 205, and \<open>choose_sig_format\<close>, lines 291 to 328,
  are not part of this development.)
\<close>

record Ciphersuite =
  mac_algo :: string

record Public_Key =
  algo_name :: string

record Policy =
  allowed_signature_hashes :: "string list"

record Client_Hello =
  ch_supported_algos :: "(string \<times> string) list"
  ch_session_ticket :: "byte list"

record Certificate_Req =
  cr_supported_algos :: "(string \<times> string) list"

record New_Session_Ticket =
  ticket :: "byte list"

text \<open>
  The messages the file stores and never reads: nothing of their contents is used below,
  so each is kept as the bytes of the message.
\<close>

datatype Server_Hello = Server_Hello "byte list"
datatype Certificate = Certificate "byte list"
datatype Server_Key_Exchange = Server_Key_Exchange "byte list"
datatype Server_Hello_Done = Server_Hello_Done "byte list"
datatype Client_Key_Exchange = Client_Key_Exchange "byte list"
datatype Certificate_Verify = Certificate_Verify "byte list"
datatype Next_Protocol = Next_Protocol "byte list"
datatype Finished = Finished "byte list"

datatype Signature_Format = IEEE_1363 | DER_SEQUENCE

subsection \<open>The handshake state\<close>

text \<open>
  The members of \<open>Handshake_State\<close> that the file touches: the two masks, the version,
  the public member \<open>suite\<close>, and one \<open>unique_ptr\<close> slot per stored message
  (\<open>None\<close> is the null pointer).
\<close>

record Handshake_State =
  m_hand_expecting_mask :: u32bit
  m_hand_received_mask :: u32bit
  m_version :: Protocol_Version
  suite :: Ciphersuite
  m_client_hello :: "Client_Hello option"
  m_server_hello :: "Server_Hello option"
  m_server_certs :: "Certificate option"
  m_server_kex :: "Server_Key_Exchange option"
  m_cert_req :: "Certificate_Req option"
  m_server_hello_done :: "Server_Hello_Done option"
  m_client_certs :: "Certificate option"
  m_client_kex :: "Client_Key_Exchange option"
  m_client_verify :: "Certificate_Verify option"
  m_next_protocol :: "Next_Protocol option"
  m_new_session_ticket :: "New_Session_Ticket option"
  m_server_finished :: "Finished option"
  m_client_finished :: "Finished option"

subsection \<open>Setters (lines 96 to 164)\<close>

text \<open>Each setter is \<open>slot.reset(pointer)\<close>: the slot holds the argument afterwards.\<close>

definition client_hello :: "Client_Hello option \<Rightarrow> Handshake_State \<Rightarrow> Handshake_State" where
  "client_hello p st = st\<lparr>m_client_hello := p\<rparr>"

definition server_hello :: "Server_Hello option \<Rightarrow> Handshake_State \<Rightarrow> Handshake_State" where
  "server_hello p st = st\<lparr>m_server_hello := p\<rparr>"

definition server_certs :: "Certificate option \<Rightarrow> Handshake_State \<Rightarrow> Handshake_State" where
  "server_certs p st = st\<lparr>m_server_certs := p\<rparr>"

definition server_kex :: "Server_Key_Exchange option \<Rightarrow> Handshake_State \<Rightarrow> Handshake_State" where
  "server_kex p st = st\<lparr>m_server_kex := p\<rparr>"

definition cert_req :: "Certificate_Req option \<Rightarrow> Handshake_State \<Rightarrow> Handshake_State" where
  "cert_req p st = st\<lparr>m_cert_req := p\<rparr>"

definition server_hello_done :: "Server_Hello_Done option \<Rightarrow> Handshake_State \<Rightarrow> Handshake_State" where
  "server_hello_done p st = st\<lparr>m_server_hello_done := p\<rparr>"

definition client_certs :: "Certificate option \<Rightarrow> Handshake_State \<Rightarrow> Handshake_State" where
  "client_certs p st = st\<lparr>m_client_certs := p\<rparr>"

definition client_kex :: "Client_Key_Exchange option \<Rightarrow> Handshake_State \<Rightarrow> Handshake_State" where
  "client_kex p st = st\<lparr>m_client_kex := p\<rparr>"

definition client_verify :: "Certificate_Verify option \<Rightarrow> Handshake_State \<Rightarrow> Handshake_State" where
  "client_verify p st = st\<lparr>m_client_verify := p\<rparr>"

definition next_protocol :: "Next_Protocol option \<Rightarrow> Handshake_State \<Rightarrow> Handshake_State" where
  "next_protocol p st = st\<lparr>m_next_protocol := p\<rparr>"

definition new_session_ticket :: "New_Session_Ticket option \<Rightarrow> Handshake_State \<Rightarrow> Handshake_State" where
  "new_session_ticket p st = st\<lparr>m_new_session_ticket := p\<rparr>"

definition server_finished :: "Finished option \<Rightarrow> Handshake_State \<Rightarrow> Handshake_State" where
  "server_finished p st = st\<lparr>m_server_finished := p\<rparr>"

definition client_finished :: "Finished option \<Rightarrow> Handshake_State \<Rightarrow> Handshake_State" where
  "client_finished p st = st\<lparr>m_client_finished := p\<rparr>"

definition set_version :: "Protocol_Version \<Rightarrow> Handshake_State \<Rightarrow> Handshake_State" where
  "set_version v st = st\<lparr>m_version := v\<rparr>"

subsection \<open>The transition tracker (lines 166 to 197)\<close>

text \<open>
  \<open>confirm_transition_to\<close> returns the outcome of the call together with the state the
  object is left in: the received mask is updated before the check, so it is updated
  in the state that a throw leaves behind as well.
\<close>

definition confirm_transition_to ::
  "Handshake_Type \<Rightarrow> Handshake_State \<Rightarrow> (error + unit) \<times> Handshake_State" where
  "confirm_transition_to handshake_msg st =
     (let mask = bitmask_for_handshake_type handshake_msg;
          st1 = st\<lparr>m_hand_received_mask := m_hand_received_mask st OR mask\<rparr>;
          ok = (m_hand_expecting_mask st1 AND mask \<noteq> 0)
      in if \<not> ok
         then (Inl (Unexpected_Message handshake_msg
                      (m_hand_expecting_mask st1) (m_hand_received_mask st1)), st1)
         else (Inr (), st1\<lparr>m_hand_expecting_mask := 0\<rparr>))"

definition set_expected_next :: "Handshake_Type \<Rightarrow> Handshake_State \<Rightarrow> Handshake_State" where
  "set_expected_next handshake_msg st =
     st\<lparr>m_hand_expecting_mask :=
          m_hand_expecting_mask st OR bitmask_for_handshake_type handshake_msg\<rparr>"

definition received_handshake_msg :: "Handshake_Type \<Rightarrow> Handshake_State \<Rightarrow> bool" where
  "received_handshake_msg handshake_msg st =
     (let mask = bitmask_for_handshake_type handshake_msg
      in m_hand_received_mask st AND mask \<noteq> 0)"

text \<open>
  The calls that change a \<open>Handshake_State\<close>, and the state a sequence of them leaves
  (a caller may catch the exception of a failed \<open>confirm_transition_to\<close> and go on).
  The remaining member functions of the file are \<open>const\<close>.
\<close>

datatype call =
    Call_client_hello "Client_Hello option"
  | Call_server_hello "Server_Hello option"
  | Call_server_certs "Certificate option"
  | Call_server_kex "Server_Key_Exchange option"
  | Call_cert_req "Certificate_Req option"
  | Call_server_hello_done "Server_Hello_Done option"
  | Call_client_certs "Certificate option"
  | Call_client_kex "Client_Key_Exchange option"
  | Call_client_verify "Certificate_Verify option"
  | Call_next_protocol "Next_Protocol option"
  | Call_new_session_ticket "New_Session_Ticket option"
  | Call_server_finished "Finished option"
  | Call_client_finished "Finished option"
  | Call_set_version Protocol_Version
  | Call_confirm_transition_to Handshake_Type
  | Call_set_expected_next Handshake_Type

fun do_call :: "call \<Rightarrow> Handshake_State \<Rightarrow> Handshake_State" where
  "do_call (Call_client_hello p) st = client_hello p st"
| "do_call (Call_server_hello p) st = server_hello p st"
| "do_call (Call_server_certs p) st = server_certs p st"
| "do_call (Call_server_kex p) st = server_kex p st"
| "do_call (Call_cert_req p) st = cert_req p st"
| "do_call (Call_server_hello_done p) st = server_hello_done p st"
| "do_call (Call_client_certs p) st = client_certs p st"
| "do_call (Call_client_kex p) st = client_kex p st"
| "do_call (Call_client_verify p) st = client_verify p st"
| "do_call (Call_next_protocol p) st = next_protocol p st"
| "do_call (Call_new_session_ticket p) st = new_session_ticket p st"
| "do_call (Call_server_finished p) st = server_finished p st"
| "do_call (Call_client_finished p) st = client_finished p st"
| "do_call (Call_set_version v) st = set_version v st"
| "do_call (Call_confirm_transition_to k) st = snd (confirm_transition_to k st)"
| "do_call (Call_set_expected_next k) st = set_expected_next k st"

fun do_calls :: "call list \<Rightarrow> Handshake_State \<Rightarrow> Handshake_State" where
  "do_calls [] st = st"
| "do_calls (c # cs) st = do_calls cs (do_call c st)"

fun is_set_expected_next :: "call \<Rightarrow> bool" where
  "is_set_expected_next (Call_set_expected_next k) = True"
| "is_set_expected_next c = False"

subsection \<open>The effective session ticket (lines 207 to 213)\<close>

text \<open>
  The getters \<open>new_session_ticket()\<close> and \<open>client_hello()\<close> hand out the slot's pointer.
  The first is tested against null before it is used; the second is used untested, so
  with the ClientHello slot unset the last line calls through a null pointer.
\<close>

definition session_ticket :: "Handshake_State \<Rightarrow> error + byte list" where
  "session_ticket st =
     (case m_new_session_ticket st of
        Some t \<Rightarrow>
          if ticket t \<noteq> [] then Inr (ticket t)
          else (case m_client_hello st of
                  None \<Rightarrow> Inl Null_Dereference
                | Some ch \<Rightarrow> Inr (ch_session_ticket ch))
      | None \<Rightarrow>
          (case m_client_hello st of
             None \<Rightarrow> Inl Null_Dereference
           | Some ch \<Rightarrow> Inr (ch_session_ticket ch)))"

subsection \<open>PRF selection (lines 215 to 235)\<close>

text \<open>
  \<open>get_kdf\<close>, the lookup of a KDF by its name, is a function of the library outside this
  file: it is a parameter here, and may fail with an error of its own. The three
  branches of the \<open>if\<close> all return, so no path leads to the
  \<open>throw Internal_Error("Unknown version code ...")\<close> that follows it.
\<close>

definition protocol_specific_prf ::
  "(string \<Rightarrow> error + 'kdf) \<Rightarrow> Handshake_State \<Rightarrow> error + 'kdf" where
  "protocol_specific_prf get_kdf st =
     (if m_version st = SSL_V3 then get_kdf ''SSL3-PRF''
      else if supports_ciphersuite_specific_prf (m_version st) then
        (if mac_algo (suite st) = ''MD5'' \<or> mac_algo (suite st) = ''SHA-1''
         then get_kdf ''TLS-12-PRF(SHA-256)''
         else get_kdf (''TLS-12-PRF('' @ mac_algo (suite st) @ '')''))
      else get_kdf ''TLS-PRF'')"

subsection \<open>Hash selection (lines 239 to 287)\<close>

text \<open>
  The inner loop of \<open>choose_hash\<close>: is there an advertised pair whose first component is
  \<open>hash\<close> and whose second is \<open>sig_algo\<close>? The outer loop returns the first \<open>hash\<close> of
  the policy's list for which there is one, and falls through (\<open>None\<close>) otherwise.
\<close>

fun choose_hash_pairs :: "string \<Rightarrow> string \<Rightarrow> (string \<times> string) list \<Rightarrow> bool" where
  "choose_hash_pairs hash sig_algo [] = False"
| "choose_hash_pairs hash sig_algo (algo # supported_algos) =
     (if fst algo = hash \<and> snd algo = sig_algo then True
      else choose_hash_pairs hash sig_algo supported_algos)"

fun choose_hash_hashes :: "string \<Rightarrow> (string \<times> string) list \<Rightarrow> string list \<Rightarrow> string option" where
  "choose_hash_hashes sig_algo supported_algos [] = None"
| "choose_hash_hashes sig_algo supported_algos (hash # hashes) =
     (if choose_hash_pairs hash sig_algo supported_algos then Some hash
      else choose_hash_hashes sig_algo supported_algos hashes)"

text \<open>
  \<open>client_hello\<close> and \<open>cert_req\<close> are pointers to the stored messages (\<open>None\<close> is null);
  the one the role selects is dereferenced without a test.
\<close>

definition choose_hash ::
  "string \<Rightarrow> Protocol_Version \<Rightarrow> Policy \<Rightarrow> bool \<Rightarrow> Client_Hello option
     \<Rightarrow> Certificate_Req option \<Rightarrow> error + string" where
  "choose_hash sig_algo negotiated_version policy for_client_auth client_hello_ptr cert_req_ptr =
     (if \<not> supports_negotiable_signature_algorithms negotiated_version then
        (if for_client_auth \<and> negotiated_version = SSL_V3 then Inr ''Raw''
         else if sig_algo = ''RSA'' then Inr ''TLS.Digest.0''
         else if sig_algo = ''DSA'' then Inr ''SHA-1''
         else if sig_algo = ''ECDSA'' then Inr ''SHA-1''
         else Inl (Internal_Error (''Unknown TLS signature algo '' @ sig_algo)))
      else
        (case (if for_client_auth then map_option cr_supported_algos cert_req_ptr
               else map_option ch_supported_algos client_hello_ptr) of
           None \<Rightarrow> Inl Null_Dereference
         | Some supported_algos \<Rightarrow>
             (if supported_algos \<noteq> [] then
                (case choose_hash_hashes sig_algo supported_algos
                        (allowed_signature_hashes policy) of
                   Some hash \<Rightarrow> Inr hash
                 | None \<Rightarrow> Inr ''SHA-1'')
              else Inr ''SHA-1'')))"

subsection \<open>Understanding a signature format (lines 330 to 391)\<close>

text \<open>
  The second half of \<open>understand_sig_format\<close> (lines 360 to 390), reached when the checks
  of the wire identifiers have passed: the hash is fixed by key type, role and version,
  and the padding name and signature format are built from it.
\<close>

definition understand_sig_format_padding ::
  "Protocol_Version \<Rightarrow> string \<Rightarrow> string \<Rightarrow> bool \<Rightarrow> error + (string \<times> Signature_Format)" where
  "understand_sig_format_padding v algo hash_algo for_client_auth =
     (if algo = ''RSA'' then
        (let hash_algo1 =
               (if for_client_auth \<and> v = SSL_V3 then ''Raw''
                else if \<not> supports_negotiable_signature_algorithms v then ''TLS.Digest.0''
                else hash_algo)
         in Inr (''EMSA3('' @ hash_algo1 @ '')'', IEEE_1363))
      else if algo = ''DSA'' \<or> algo = ''ECDSA'' then
        (let hash_algo1 =
               (if algo = ''DSA'' \<and> for_client_auth \<and> v = SSL_V3 then ''Raw''
                else if \<not> supports_negotiable_signature_algorithms v then ''SHA-1''
                else hash_algo)
         in Inr (''EMSA1('' @ hash_algo1 @ '')'', DER_SEQUENCE))
      else Inl (Invalid_Argument (algo @ '' is invalid/unknown for TLS signatures'')))"

definition understand_sig_format ::
  "Handshake_State \<Rightarrow> Public_Key \<Rightarrow> string \<Rightarrow> string \<Rightarrow> bool
     \<Rightarrow> error + (string \<times> Signature_Format)" where
  "understand_sig_format st key hash_algo sig_algo for_client_auth =
     (if supports_negotiable_signature_algorithms (m_version st) then
        (if hash_algo = [] then
           Inl (Decoding_Error ''Counterparty did not send hash/sig IDS'')
         else if sig_algo \<noteq> algo_name key then
           Inl (Decoding_Error ''Counterparty sent inconsistent key and sig types'')
         else understand_sig_format_padding (m_version st) (algo_name key) hash_algo
                for_client_auth)
      else
        (if hash_algo \<noteq> [] \<or> sig_algo \<noteq> [] then
           Inl (Decoding_Error ''Counterparty sent hash/sig IDs with old version'')
         else understand_sig_format_padding (m_version st) (algo_name key) hash_algo
                for_client_auth))"

subsection \<open>A state to evaluate on\<close>

text \<open>
  A handshake state at version \<open>v\<close> with cipher suite MAC \<open>mac\<close>, both masks empty and no
  message stored; the examples below start from it.
\<close>

definition fresh_state :: "Protocol_Version \<Rightarrow> string \<Rightarrow> Handshake_State" where
  "fresh_state v mac =
     \<lparr>m_hand_expecting_mask = 0, m_hand_received_mask = 0, m_version = v,
      suite = \<lparr>mac_algo = mac\<rparr>,
      m_client_hello = None, m_server_hello = None, m_server_certs = None,
      m_server_kex = None, m_cert_req = None, m_server_hello_done = None,
      m_client_certs = None, m_client_kex = None, m_client_verify = None,
      m_next_protocol = None, m_new_session_ticket = None, m_server_finished = None,
      m_client_finished = None\<rparr>"

section \<open>Properties\<close>

subsection \<open>The bit masks\<close>

text \<open>
  Claim C6. Two kinds have the same mask exactly when they are the same kind or are the
  two client hello kinds (\<open>CLIENT_HELLO\<close> and \<open>CLIENT_HELLO_SSLV2\<close>, which share one bit);
  \<open>HANDSHAKE_NONE\<close> has the empty mask; every other kind has a mask of exactly one bit.
\<close>

theorem bitmask_for_handshake_type_injective:
  "(bitmask_for_handshake_type k1 = bitmask_for_handshake_type k2 \<longleftrightarrow>
      k1 = k2 \<or> (k1 = CLIENT_HELLO \<and> k2 = CLIENT_HELLO_SSLV2)
              \<or> (k1 = CLIENT_HELLO_SSLV2 \<and> k2 = CLIENT_HELLO)) \<and>
   bitmask_for_handshake_type HANDSHAKE_NONE = 0 \<and>
   (k1 \<noteq> HANDSHAKE_NONE \<longrightarrow> (\<exists>n<16. bitmask_for_handshake_type k1 = push_bit n 1))"
proof -
  have inj: "bitmask_for_handshake_type k1 = bitmask_for_handshake_type k2 \<longleftrightarrow>
      k1 = k2 \<or> (k1 = CLIENT_HELLO \<and> k2 = CLIENT_HELLO_SSLV2)
              \<or> (k1 = CLIENT_HELLO_SSLV2 \<and> k2 = CLIENT_HELLO)"
    by (cases k1; cases k2; simp)
  have one_bit: "k1 \<noteq> HANDSHAKE_NONE \<longrightarrow>
      (\<exists>n<16. bitmask_for_handshake_type k1 = push_bit n 1)"
  proof (cases k1)
    case HANDSHAKE_NONE
    then show ?thesis by simp
  qed (simp_all only: bitmask_for_handshake_type.simps,
       (intro impI exI conjI, rule_tac [2] refl, simp)+)
  from inj one_bit show ?thesis by simp
qed

text \<open>
  The two client hello kinds share their mask, \<open>FINISHED\<close> and \<open>SERVER_HELLO\<close> do not, and
  the mask of \<open>FINISHED\<close> is one bit.
\<close>

theorem bitmask_for_handshake_type_injective_witness:
  "bitmask_for_handshake_type CLIENT_HELLO = bitmask_for_handshake_type CLIENT_HELLO_SSLV2 \<and>
   bitmask_for_handshake_type FINISHED \<noteq> bitmask_for_handshake_type SERVER_HELLO \<and>
   FINISHED \<noteq> HANDSHAKE_NONE \<and>
   (\<exists>n<16. bitmask_for_handshake_type FINISHED = push_bit n 1)"
  using bitmask_for_handshake_type_injective [of CLIENT_HELLO CLIENT_HELLO_SSLV2]
    bitmask_for_handshake_type_injective [of FINISHED SERVER_HELLO]
  by simp

subsection \<open>The transition tracker\<close>

lemma bitmask_nonzero: "k \<noteq> HANDSHAKE_NONE \<Longrightarrow> bitmask_for_handshake_type k \<noteq> 0"
  by (cases k) simp_all

lemma or_and_same: "((x::u32bit) OR m) AND m = m"
  by (simp add: bit_eq_iff bit_and_iff bit_or_iff)

lemma or_and_keeps: "(x::u32bit) AND m \<noteq> 0 \<Longrightarrow> (x OR y) AND m \<noteq> 0"
proof -
  assume nz: "x AND m \<noteq> 0"
  have "(x OR y) AND m = (x AND m) OR (y AND m)"
    by (simp add: bit_eq_iff bit_and_iff bit_or_iff) blast
  with nz show ?thesis by (simp add: or_eq_0_iff)
qed

lemma do_call_received:
  "received_handshake_msg k st \<Longrightarrow> received_handshake_msg k (do_call c st)"
  by (cases c)
     (simp_all add: received_handshake_msg_def confirm_transition_to_def Let_def
        set_expected_next_def set_version_def client_hello_def server_hello_def
        server_certs_def server_kex_def cert_req_def server_hello_done_def client_certs_def
        client_kex_def client_verify_def next_protocol_def new_session_ticket_def
        server_finished_def client_finished_def or_and_keeps)

lemma do_calls_received:
  "received_handshake_msg k st \<Longrightarrow> received_handshake_msg k (do_calls cs st)"
  by (induction cs arbitrary: st) (simp_all add: do_call_received)

lemma do_call_expecting:
  "m_hand_expecting_mask st = 0 \<Longrightarrow> \<not> is_set_expected_next c \<Longrightarrow>
     m_hand_expecting_mask (do_call c st) = 0"
  by (cases c)
     (simp_all add: confirm_transition_to_def Let_def
        set_version_def client_hello_def server_hello_def
        server_certs_def server_kex_def cert_req_def server_hello_done_def client_certs_def
        client_kex_def client_verify_def next_protocol_def new_session_ticket_def
        server_finished_def client_finished_def)

lemma do_calls_expecting:
  "m_hand_expecting_mask st = 0 \<Longrightarrow> \<forall>c\<in>set cs. \<not> is_set_expected_next c \<Longrightarrow>
     m_hand_expecting_mask (do_calls cs st) = 0"
  by (induction cs arbitrary: st) (simp_all add: do_call_expecting)

text \<open>
  Claim C1. For every kind \<open>k\<close> and every state, \<open>confirm_transition_to k\<close> succeeds exactly
  when the mask of \<open>k\<close> intersects the expecting mask. On success the mask of \<open>k\<close> has
  been ORed into the received mask, the expecting mask is empty,
  \<open>received_handshake_msg k\<close> is true from then on, whatever is called, and the expecting
  mask stays empty through every sequence of calls without a \<open>set_expected_next\<close>. On
  failure the error is \<open>Unexpected_Message\<close> with the kind, the expecting mask and the
  (updated) received mask.
\<close>

theorem confirm_transition_to_correct:
  "(fst (confirm_transition_to k st) = Inr ()
      \<longleftrightarrow> m_hand_expecting_mask st AND bitmask_for_handshake_type k \<noteq> 0) \<and>
   (m_hand_expecting_mask st AND bitmask_for_handshake_type k \<noteq> 0 \<longrightarrow>
      m_hand_received_mask (snd (confirm_transition_to k st))
        = m_hand_received_mask st OR bitmask_for_handshake_type k \<and>
      m_hand_expecting_mask (snd (confirm_transition_to k st)) = 0 \<and>
      (\<forall>cs. received_handshake_msg k (do_calls cs (snd (confirm_transition_to k st)))) \<and>
      (\<forall>cs. (\<forall>c\<in>set cs. \<not> is_set_expected_next c) \<longrightarrow>
         m_hand_expecting_mask (do_calls cs (snd (confirm_transition_to k st))) = 0)) \<and>
   (m_hand_expecting_mask st AND bitmask_for_handshake_type k = 0 \<longrightarrow>
      fst (confirm_transition_to k st)
        = Inl (Unexpected_Message k (m_hand_expecting_mask st)
                 (m_hand_received_mask st OR bitmask_for_handshake_type k)))"
proof (cases "m_hand_expecting_mask st AND bitmask_for_handshake_type k = 0")
  case True
  then show ?thesis by (simp add: confirm_transition_to_def Let_def)
next
  case False
  define st' where "st' = snd (confirm_transition_to k st)"
  have res: "fst (confirm_transition_to k st) = Inr ()"
    using False by (simp add: confirm_transition_to_def Let_def)
  have rec: "m_hand_received_mask st' = m_hand_received_mask st OR bitmask_for_handshake_type k"
    using False by (simp add: st'_def confirm_transition_to_def Let_def)
  have exp: "m_hand_expecting_mask st' = 0"
    using False by (simp add: st'_def confirm_transition_to_def Let_def)
  have "bitmask_for_handshake_type k \<noteq> 0"
    using False by auto
  then have "received_handshake_msg k st'"
    by (simp add: received_handshake_msg_def rec or_and_same)
  then have later: "\<forall>cs. received_handshake_msg k (do_calls cs st')"
    by (simp add: do_calls_received)
  have closed: "\<forall>cs. (\<forall>c\<in>set cs. \<not> is_set_expected_next c) \<longrightarrow>
      m_hand_expecting_mask (do_calls cs st') = 0"
    using exp by (simp add: do_calls_expecting)
  show ?thesis
    using False res rec exp later closed unfolding st'_def by simp
qed

theorem confirm_transition_to_correct_witness:
  "fst (confirm_transition_to SERVER_HELLO
          (set_expected_next SERVER_HELLO (fresh_state TLS_V12 ''SHA-256''))) = Inr () \<and>
   m_hand_expecting_mask (set_expected_next SERVER_HELLO (fresh_state TLS_V12 ''SHA-256''))
     AND bitmask_for_handshake_type SERVER_HELLO = 8 \<and>
   m_hand_received_mask (snd (confirm_transition_to SERVER_HELLO
          (set_expected_next SERVER_HELLO (fresh_state TLS_V12 ''SHA-256'')))) = 8 \<and>
   received_handshake_msg SERVER_HELLO
     (do_calls [Call_set_version TLS_V10, Call_confirm_transition_to CERTIFICATE]
        (snd (confirm_transition_to SERVER_HELLO
                (set_expected_next SERVER_HELLO (fresh_state TLS_V12 ''SHA-256''))))) \<and>
   m_hand_expecting_mask
     (do_calls [Call_set_version TLS_V10, Call_confirm_transition_to CERTIFICATE]
        (snd (confirm_transition_to SERVER_HELLO
                (set_expected_next SERVER_HELLO (fresh_state TLS_V12 ''SHA-256''))))) = 0 \<and>
   m_hand_expecting_mask (set_expected_next SERVER_HELLO (fresh_state TLS_V12 ''SHA-256''))
     AND bitmask_for_handshake_type CERTIFICATE = 0 \<and>
   fst (confirm_transition_to CERTIFICATE
          (set_expected_next SERVER_HELLO (fresh_state TLS_V12 ''SHA-256'')))
     = Inl (Unexpected_Message CERTIFICATE 8 16)"
proof -
  let ?st = "set_expected_next SERVER_HELLO (fresh_state TLS_V12 ''SHA-256'')"
  have a: "m_hand_expecting_mask ?st AND bitmask_for_handshake_type SERVER_HELLO = 8"
    by (simp add: set_expected_next_def fresh_state_def)
  have b: "m_hand_expecting_mask ?st AND bitmask_for_handshake_type CERTIFICATE = 0"
    by (simp add: set_expected_next_def fresh_state_def)
  have c: "m_hand_expecting_mask ?st = 8" "m_hand_received_mask ?st = 0"
    by (simp_all add: set_expected_next_def fresh_state_def)
  have d: "\<forall>c\<in>set [Call_set_version TLS_V10, Call_confirm_transition_to CERTIFICATE].
             \<not> is_set_expected_next c"
    by simp
  note inst = confirm_transition_to_correct [of SERVER_HELLO ?st]
  have s1: "fst (confirm_transition_to SERVER_HELLO ?st) = Inr ()"
    "m_hand_received_mask (snd (confirm_transition_to SERVER_HELLO ?st)) = 8"
    using inst a c by simp_all
  have "\<forall>cs. received_handshake_msg SERVER_HELLO
          (do_calls cs (snd (confirm_transition_to SERVER_HELLO ?st)))"
    using inst a by simp
  then have s2: "received_handshake_msg SERVER_HELLO
       (do_calls [Call_set_version TLS_V10, Call_confirm_transition_to CERTIFICATE]
          (snd (confirm_transition_to SERVER_HELLO ?st)))"
    by (rule spec)
  have "\<forall>cs. (\<forall>c\<in>set cs. \<not> is_set_expected_next c) \<longrightarrow>
          m_hand_expecting_mask
            (do_calls cs (snd (confirm_transition_to SERVER_HELLO ?st))) = 0"
    using inst a by simp
  then have s3: "m_hand_expecting_mask
       (do_calls [Call_set_version TLS_V10, Call_confirm_transition_to CERTIFICATE]
          (snd (confirm_transition_to SERVER_HELLO ?st))) = 0"
    using d by blast
  from confirm_transition_to_correct [of CERTIFICATE ?st] b c
  have f: "fst (confirm_transition_to CERTIFICATE ?st)
             = Inl (Unexpected_Message CERTIFICATE 8 16)"
    by simp
  show ?thesis using a b s1 s2 s3 f by blast
qed

text \<open>
  Claim C9, amended. \<open>confirm_transition_to\<close> is not atomic on error: when the mask of \<open>k\<close>
  does not intersect the expecting mask, the call fails with \<open>Unexpected_Message\<close> and
  leaves a state whose received mask has the mask of \<open>k\<close> ORed in (nothing else is
  changed). After the failure \<open>received_handshake_msg k\<close> is true for every kind \<open>k\<close> but
  \<open>HANDSHAKE_NONE\<close>, whose mask is empty: for that kind it is false.
\<close>

theorem confirm_transition_to_failure:
  assumes "m_hand_expecting_mask st AND bitmask_for_handshake_type k = 0"
  shows "confirm_transition_to k st =
           (Inl (Unexpected_Message k (m_hand_expecting_mask st)
                   (m_hand_received_mask st OR bitmask_for_handshake_type k)),
            st\<lparr>m_hand_received_mask :=
                 m_hand_received_mask st OR bitmask_for_handshake_type k\<rparr>) \<and>
         (received_handshake_msg k (snd (confirm_transition_to k st))
            \<longleftrightarrow> k \<noteq> HANDSHAKE_NONE)"
proof -
  have res: "confirm_transition_to k st =
           (Inl (Unexpected_Message k (m_hand_expecting_mask st)
                   (m_hand_received_mask st OR bitmask_for_handshake_type k)),
            st\<lparr>m_hand_received_mask :=
                 m_hand_received_mask st OR bitmask_for_handshake_type k\<rparr>)"
    using assms by (simp add: confirm_transition_to_def Let_def)
  have "received_handshake_msg k (snd (confirm_transition_to k st))
          \<longleftrightarrow> bitmask_for_handshake_type k \<noteq> 0"
    by (simp add: res received_handshake_msg_def or_and_same)
  also have "\<dots> \<longleftrightarrow> k \<noteq> HANDSHAKE_NONE"
    using bitmask_nonzero [of k] by auto
  finally show ?thesis using res by simp
qed

text \<open>
  With only \<open>SERVER_HELLO\<close> expected, \<open>CERTIFICATE\<close> is rejected and is recorded as received
  all the same.
\<close>

theorem confirm_transition_to_failure_witness:
  "m_hand_expecting_mask (set_expected_next SERVER_HELLO (fresh_state TLS_V12 ''SHA-256''))
     AND bitmask_for_handshake_type CERTIFICATE = 0 \<and>
   fst (confirm_transition_to CERTIFICATE
          (set_expected_next SERVER_HELLO (fresh_state TLS_V12 ''SHA-256'')))
     = Inl (Unexpected_Message CERTIFICATE 8 16) \<and>
   received_handshake_msg CERTIFICATE
     (snd (confirm_transition_to CERTIFICATE
             (set_expected_next SERVER_HELLO (fresh_state TLS_V12 ''SHA-256''))))"
proof -
  let ?st = "set_expected_next SERVER_HELLO (fresh_state TLS_V12 ''SHA-256'')"
  have a: "m_hand_expecting_mask ?st AND bitmask_for_handshake_type CERTIFICATE = 0"
    by (simp add: set_expected_next_def fresh_state_def)
  have c: "m_hand_expecting_mask ?st = 8" "m_hand_received_mask ?st = 0"
    by (simp_all add: set_expected_next_def fresh_state_def)
  note inst = confirm_transition_to_failure [OF a]
  have r1: "fst (confirm_transition_to CERTIFICATE ?st)
              = Inl (Unexpected_Message CERTIFICATE 8 16)"
    using inst [THEN conjunct1] c by simp
  have r2: "received_handshake_msg CERTIFICATE (snd (confirm_transition_to CERTIFICATE ?st))"
    using inst [THEN conjunct2] by simp
  from a r1 r2 show ?thesis by blast
qed

text \<open>
  Claim C9 as stated speaks of every kind. \<open>HANDSHAKE_NONE\<close> has the empty mask, which
  intersects no expecting mask: the call fails, and \<open>received_handshake_msg HANDSHAKE_NONE\<close>
  is false afterwards.
\<close>

theorem confirm_transition_to_failure_none_counterexample:
  "m_hand_expecting_mask (fresh_state TLS_V12 ''SHA-256'')
     AND bitmask_for_handshake_type HANDSHAKE_NONE = 0 \<and>
   fst (confirm_transition_to HANDSHAKE_NONE (fresh_state TLS_V12 ''SHA-256''))
     = Inl (Unexpected_Message HANDSHAKE_NONE 0 0) \<and>
   \<not> received_handshake_msg HANDSHAKE_NONE
       (snd (confirm_transition_to HANDSHAKE_NONE (fresh_state TLS_V12 ''SHA-256'')))"
  by (simp add: confirm_transition_to_def received_handshake_msg_def fresh_state_def)

subsection \<open>The effective session ticket\<close>

text \<open>
  Claim C5, amended. A stored NewSessionTicket with non-empty ticket bytes is returned as
  it is. Otherwise (none stored, or one with empty bytes), if a ClientHello is stored, its
  session ticket is returned, so the result is empty when that ticket is empty. Otherwise
  still, with no ClientHello stored, the call goes through the null ClientHello pointer and
  has no result.
\<close>

theorem session_ticket_effective:
  "(\<forall>t. m_new_session_ticket st = Some t \<and> ticket t \<noteq> [] \<longrightarrow>
        session_ticket st = Inr (ticket t)) \<and>
   (\<forall>ch. (m_new_session_ticket st = None \<or>
          (\<exists>t. m_new_session_ticket st = Some t \<and> ticket t = [])) \<and>
         m_client_hello st = Some ch \<longrightarrow>
        session_ticket st = Inr (ch_session_ticket ch) \<and>
        (ch_session_ticket ch = [] \<longrightarrow> session_ticket st = Inr [])) \<and>
   ((m_new_session_ticket st = None \<or>
     (\<exists>t. m_new_session_ticket st = Some t \<and> ticket t = [])) \<and>
    m_client_hello st = None \<longrightarrow>
        session_ticket st = Inl Null_Dereference)"
  by (auto simp: session_ticket_def split: option.splits)

text \<open>
  A new ticket \<open>[1, 2, 3]\<close> wins over the ClientHello's \<open>[9]\<close>; an empty new ticket gives
  way to it; a ClientHello without ticket and no new ticket give the empty ticket; an empty
  new ticket without a ClientHello gives no result.
\<close>

theorem session_ticket_effective_witness:
  "session_ticket
     (new_session_ticket (Some \<lparr>ticket = [1, 2, 3]\<rparr>)
        (client_hello (Some \<lparr>ch_supported_algos = [], ch_session_ticket = [9]\<rparr>)
           (fresh_state TLS_V12 ''SHA-256''))) = Inr [1, 2, 3] \<and>
   session_ticket
     (new_session_ticket (Some \<lparr>ticket = []\<rparr>)
        (client_hello (Some \<lparr>ch_supported_algos = [], ch_session_ticket = [9]\<rparr>)
           (fresh_state TLS_V12 ''SHA-256''))) = Inr [9] \<and>
   session_ticket
     (client_hello (Some \<lparr>ch_supported_algos = [], ch_session_ticket = []\<rparr>)
        (fresh_state TLS_V12 ''SHA-256'')) = Inr [] \<and>
   session_ticket (new_session_ticket (Some \<lparr>ticket = []\<rparr>) (fresh_state TLS_V12 ''SHA-256''))
     = Inl Null_Dereference"
proof -
  let ?ch = "\<lparr>ch_supported_algos = [], ch_session_ticket = [9 :: byte]\<rparr>"
  let ?che = "\<lparr>ch_supported_algos = [], ch_session_ticket = ([] :: byte list)\<rparr>"
  let ?s1 = "new_session_ticket (Some \<lparr>ticket = [1, 2, 3]\<rparr>)
               (client_hello (Some ?ch) (fresh_state TLS_V12 ''SHA-256''))"
  let ?s2 = "new_session_ticket (Some \<lparr>ticket = []\<rparr>)
               (client_hello (Some ?ch) (fresh_state TLS_V12 ''SHA-256''))"
  let ?s3 = "client_hello (Some ?che) (fresh_state TLS_V12 ''SHA-256'')"
  let ?s4 = "new_session_ticket (Some \<lparr>ticket = []\<rparr>) (fresh_state TLS_V12 ''SHA-256'')"
  have f1: "m_new_session_ticket ?s1 = Some \<lparr>ticket = [1, 2, 3]\<rparr>"
    by (simp add: new_session_ticket_def)
  have f2: "m_new_session_ticket ?s2 = Some \<lparr>ticket = []\<rparr>" "m_client_hello ?s2 = Some ?ch"
    by (simp_all add: new_session_ticket_def client_hello_def)
  have f3: "m_new_session_ticket ?s3 = None" "m_client_hello ?s3 = Some ?che"
    by (simp_all add: client_hello_def fresh_state_def)
  have f4: "m_new_session_ticket ?s4 = Some \<lparr>ticket = []\<rparr>" "m_client_hello ?s4 = None"
    by (simp_all add: new_session_ticket_def fresh_state_def)
  have r1: "session_ticket ?s1 = Inr [1, 2, 3]"
    using session_ticket_effective [of ?s1] f1 by simp
  have r2: "session_ticket ?s2 = Inr [9]"
    using session_ticket_effective [of ?s2] f2 by simp
  have r3: "session_ticket ?s3 = Inr []"
    using session_ticket_effective [of ?s3] f3 by simp
  have r4: "session_ticket ?s4 = Inl Null_Dereference"
    using session_ticket_effective [of ?s4] f4 by simp
  from r1 r2 r3 r4 show ?thesis by blast
qed

text \<open>
  Claim C5 as stated speaks of every state of the message store, and of an empty result
  where neither ticket exists. In a state with neither message stored the query does not
  return the empty ticket: it dereferences the unset ClientHello slot.
\<close>

theorem session_ticket_unset_counterexample:
  "m_new_session_ticket (fresh_state TLS_V12 ''SHA-256'') = None \<and>
   m_client_hello (fresh_state TLS_V12 ''SHA-256'') = None \<and>
   session_ticket (fresh_state TLS_V12 ''SHA-256'') = Inl Null_Dereference \<and>
   session_ticket (fresh_state TLS_V12 ''SHA-256'') \<noteq> Inr []"
  by (simp add: session_ticket_def fresh_state_def)

subsection \<open>PRF selection\<close>

text \<open>
  Claim C2. At SSLv3 the PRF is the lookup of \<open>SSL3-PRF\<close>. At a version that supports a PRF
  per cipher suite it is the lookup of \<open>TLS-12-PRF(m)\<close> for the suite's MAC \<open>m\<close>, but of
  \<open>TLS-12-PRF(SHA-256)\<close> when \<open>m\<close> is \<open>MD5\<close> or \<open>SHA-1\<close>. At every other version, so at
  TLS 1.0, TLS 1.1 and DTLS 1.0, it is the lookup of \<open>TLS-PRF\<close>, whatever the suite.
\<close>

theorem protocol_specific_prf_selection:
  "(m_version st = SSL_V3 \<longrightarrow> protocol_specific_prf get_kdf st = get_kdf ''SSL3-PRF'') \<and>
   (supports_ciphersuite_specific_prf (m_version st) \<longrightarrow>
      protocol_specific_prf get_kdf st =
        (if mac_algo (suite st) = ''MD5'' \<or> mac_algo (suite st) = ''SHA-1''
         then get_kdf ''TLS-12-PRF(SHA-256)''
         else get_kdf (''TLS-12-PRF('' @ mac_algo (suite st) @ '')''))) \<and>
   (m_version st \<noteq> SSL_V3 \<and> \<not> supports_ciphersuite_specific_prf (m_version st) \<longrightarrow>
      protocol_specific_prf get_kdf st = get_kdf ''TLS-PRF'') \<and>
   (m_version st = TLS_V10 \<or> m_version st = TLS_V11 \<or> m_version st = DTLS_V10 \<longrightarrow>
      protocol_specific_prf get_kdf st = get_kdf ''TLS-PRF'')"
proof -
  have not_ssl: "supports_ciphersuite_specific_prf (m_version st) \<Longrightarrow> m_version st \<noteq> SSL_V3"
    by (auto simp: supports_ciphersuite_specific_prf_def)
  have old: "m_version st = TLS_V10 \<or> m_version st = TLS_V11 \<or> m_version st = DTLS_V10
      \<Longrightarrow> m_version st \<noteq> SSL_V3 \<and> \<not> supports_ciphersuite_specific_prf (m_version st)"
    by (auto simp: supports_ciphersuite_specific_prf_def)
  show ?thesis
    using not_ssl old unfolding protocol_specific_prf_def by auto
qed

text \<open>
  The examples of the specification, with a lookup that returns the name it is asked for.
\<close>

theorem protocol_specific_prf_selection_witness:
  "protocol_specific_prf Inr (fresh_state SSL_V3 ''SHA-1'') = Inr ''SSL3-PRF'' \<and>
   protocol_specific_prf Inr (fresh_state TLS_V12 ''SHA-1'') = Inr ''TLS-12-PRF(SHA-256)'' \<and>
   protocol_specific_prf Inr (fresh_state TLS_V12 ''SHA-384'') = Inr ''TLS-12-PRF(SHA-384)'' \<and>
   protocol_specific_prf Inr (fresh_state TLS_V10 ''SHA-384'') = Inr ''TLS-PRF''"
proof -
  have r1: "protocol_specific_prf Inr (fresh_state SSL_V3 ''SHA-1'') = Inr ''SSL3-PRF''"
    using protocol_specific_prf_selection [of "fresh_state SSL_V3 ''SHA-1''" Inr]
    by (simp add: fresh_state_def)
  have r2: "protocol_specific_prf Inr (fresh_state TLS_V12 ''SHA-1'') = Inr ''TLS-12-PRF(SHA-256)''"
    using protocol_specific_prf_selection [of "fresh_state TLS_V12 ''SHA-1''" Inr]
    by (simp add: fresh_state_def supports_ciphersuite_specific_prf_def)
  have r3: "protocol_specific_prf Inr (fresh_state TLS_V12 ''SHA-384'') = Inr ''TLS-12-PRF(SHA-384)''"
    using protocol_specific_prf_selection [of "fresh_state TLS_V12 ''SHA-384''" Inr]
    by (simp add: fresh_state_def supports_ciphersuite_specific_prf_def)
  have r4: "protocol_specific_prf Inr (fresh_state TLS_V10 ''SHA-384'') = Inr ''TLS-PRF''"
    using protocol_specific_prf_selection [of "fresh_state TLS_V10 ''SHA-384''" Inr]
    by (simp add: fresh_state_def)
  from r1 r2 r3 r4 show ?thesis by blast
qed

text \<open>
  Claim C8. The claim asks for an internal error at a version that is none of the
  recognized ones. The code returns the lookup of \<open>TLS-PRF\<close> there: its last \<open>else\<close> takes
  every version that is neither SSLv3 nor one with a PRF per cipher suite, so the
  \<open>throw Internal_Error("Unknown version code ...")\<close> after it is never reached.
\<close>

theorem protocol_specific_prf_other_version:
  "Other_Version 0 \<noteq> SSL_V3 \<and>
   \<not> supports_ciphersuite_specific_prf (Other_Version 0) \<and>
   Other_Version 0 \<noteq> TLS_V10 \<and> Other_Version 0 \<noteq> TLS_V11 \<and>
   Other_Version 0 \<noteq> DTLS_V10 \<and>
   protocol_specific_prf Inr (fresh_state (Other_Version 0) ''SHA-256'') = Inr ''TLS-PRF''"
  by (simp add: protocol_specific_prf_def supports_ciphersuite_specific_prf_def fresh_state_def)

subsection \<open>Hash selection\<close>

lemma choose_hash_pairs_iff:
  "choose_hash_pairs hash sig_algo supported_algos \<longleftrightarrow> (hash, sig_algo) \<in> set supported_algos"
  by (induction supported_algos) auto

lemma choose_hash_hashes_first:
  "(h, sig_algo) \<in> set supported_algos \<Longrightarrow>
   \<forall>h'\<in>set pre. (h', sig_algo) \<notin> set supported_algos \<Longrightarrow>
   choose_hash_hashes sig_algo supported_algos (pre @ h # post) = Some h"
  by (induction pre) (simp_all add: choose_hash_pairs_iff)

lemma choose_hash_hashes_none:
  "\<forall>h\<in>set hashes. (h, sig_algo) \<notin> set supported_algos \<Longrightarrow>
   choose_hash_hashes sig_algo supported_algos hashes = None"
  by (induction hashes) (simp_all add: choose_hash_pairs_iff)

text \<open>
  Claim C3. At a version with negotiable signature algorithms, let \<open>supported_algos\<close> be
  the pairs the counterpart advertised (those of the CertificateRequest for client
  authentication, of the ClientHello otherwise). If the list is not empty and \<open>h\<close> is the
  first hash of the policy's list for which the pair \<open>(h, sig_algo)\<close> is advertised, then
  \<open>choose_hash\<close> returns \<open>h\<close>. If the list is empty it returns \<open>SHA-1\<close>, whatever the
  policy.
\<close>

theorem choose_hash_negotiable:
  assumes "supports_negotiable_signature_algorithms v"
    and "(if for_client_auth then map_option cr_supported_algos cr
          else map_option ch_supported_algos ch) = Some supported_algos"
  shows "(supported_algos \<noteq> [] \<longrightarrow>
            (\<forall>pre h post.
               allowed_signature_hashes policy = pre @ h # post \<and>
               (h, sig_algo) \<in> set supported_algos \<and>
               (\<forall>h'\<in>set pre. (h', sig_algo) \<notin> set supported_algos) \<longrightarrow>
               choose_hash sig_algo v policy for_client_auth ch cr = Inr h)) \<and>
         (supported_algos = [] \<longrightarrow>
            choose_hash sig_algo v policy for_client_auth ch cr = Inr ''SHA-1'')"
proof (intro conjI impI allI)
  fix pre h post
  assume ne: "supported_algos \<noteq> []"
    and first: "allowed_signature_hashes policy = pre @ h # post \<and>
               (h, sig_algo) \<in> set supported_algos \<and>
               (\<forall>h'\<in>set pre. (h', sig_algo) \<notin> set supported_algos)"
  then have "choose_hash_hashes sig_algo supported_algos (allowed_signature_hashes policy)
               = Some h"
    by (simp add: choose_hash_hashes_first)
  with assms ne show "choose_hash sig_algo v policy for_client_auth ch cr = Inr h"
    by (simp add: choose_hash_def)
next
  assume "supported_algos = []"
  with assms show "choose_hash sig_algo v policy for_client_auth ch cr = Inr ''SHA-1''"
    by (simp add: choose_hash_def)
qed

text \<open>
  The example of the specification: advertised \<open>[(SHA-256, RSA), (SHA-1, RSA)]\<close>, policy
  \<open>[SHA-384, SHA-256, SHA-1]\<close>, algorithm RSA give \<open>SHA-256\<close>; an empty advertisement
  gives \<open>SHA-1\<close>.
\<close>

theorem choose_hash_negotiable_witness:
  "choose_hash ''RSA'' TLS_V12
     \<lparr>allowed_signature_hashes = [''SHA-384'', ''SHA-256'', ''SHA-1'']\<rparr> False
     (Some \<lparr>ch_supported_algos = [(''SHA-256'', ''RSA''), (''SHA-1'', ''RSA'')],
            ch_session_ticket = []\<rparr>) None = Inr ''SHA-256'' \<and>
   choose_hash ''RSA'' TLS_V12
     \<lparr>allowed_signature_hashes = [''SHA-384'', ''SHA-256'']\<rparr> True
     None (Some \<lparr>cr_supported_algos = []\<rparr>) = Inr ''SHA-1''"
proof -
  let ?pol = "\<lparr>allowed_signature_hashes = [''SHA-384'', ''SHA-256'', ''SHA-1'']\<rparr>"
  let ?adv = "[(''SHA-256'', ''RSA''), (''SHA-1'', ''RSA'')]"
  let ?ch = "Some \<lparr>ch_supported_algos = ?adv, ch_session_ticket = []\<rparr>"
  have v: "supports_negotiable_signature_algorithms TLS_V12"
    by (simp add: supports_negotiable_signature_algorithms_def)
  have a1: "(if False then map_option cr_supported_algos None
             else map_option ch_supported_algos ?ch) = Some ?adv"
    by simp
  have first: "allowed_signature_hashes ?pol = [''SHA-384''] @ ''SHA-256'' # [''SHA-1''] \<and>
      (''SHA-256'', ''RSA'') \<in> set ?adv \<and>
      (\<forall>h'\<in>set [''SHA-384'']. (h', ''RSA'') \<notin> set ?adv)"
    by simp
  have r1: "choose_hash ''RSA'' TLS_V12 ?pol False ?ch None = Inr ''SHA-256''"
    using choose_hash_negotiable [OF v a1, of ?pol "''RSA''", THEN conjunct1] first
    by blast
  have a2: "(if True then map_option cr_supported_algos (Some \<lparr>cr_supported_algos = []\<rparr>)
             else map_option ch_supported_algos None) = Some []"
    by simp
  have r2: "choose_hash ''RSA'' TLS_V12
     \<lparr>allowed_signature_hashes = [''SHA-384'', ''SHA-256'']\<rparr> True
     None (Some \<lparr>cr_supported_algos = []\<rparr>) = Inr ''SHA-1''"
    using choose_hash_negotiable [OF v a2, THEN conjunct2] by simp
  from r1 r2 show ?thesis by blast
qed

text \<open>
  Claim C10. At a version with negotiable signature algorithms, when the counterpart
  advertised a non-empty list in which no pair names a hash of the policy's list together
  with the requested signature algorithm, \<open>choose_hash\<close> returns \<open>SHA-1\<close> and raises
  nothing.
\<close>

theorem choose_hash_no_common_pair:
  assumes "supports_negotiable_signature_algorithms v"
    and "(if for_client_auth then map_option cr_supported_algos cr
          else map_option ch_supported_algos ch) = Some supported_algos"
    and "supported_algos \<noteq> []"
    and "\<forall>h\<in>set (allowed_signature_hashes policy). (h, sig_algo) \<notin> set supported_algos"
  shows "choose_hash sig_algo v policy for_client_auth ch cr = Inr ''SHA-1''"
proof -
  have "choose_hash_hashes sig_algo supported_algos (allowed_signature_hashes policy) = None"
    using assms(4) by (rule choose_hash_hashes_none)
  with assms(1) assms(2) assms(3) show ?thesis
    by (simp add: choose_hash_def)
qed

text \<open>
  Advertised \<open>[(SHA-512, RSA), (SHA-256, DSA)]\<close> against the policy \<open>[SHA-384, SHA-256]\<close>
  and the algorithm RSA.
\<close>

theorem choose_hash_no_common_pair_witness:
  "choose_hash ''RSA'' TLS_V12
     \<lparr>allowed_signature_hashes = [''SHA-384'', ''SHA-256'']\<rparr> False
     (Some \<lparr>ch_supported_algos = [(''SHA-512'', ''RSA''), (''SHA-256'', ''DSA'')],
            ch_session_ticket = []\<rparr>) None = Inr ''SHA-1''"
proof -
  let ?pol = "\<lparr>allowed_signature_hashes = [''SHA-384'', ''SHA-256'']\<rparr>"
  let ?adv = "[(''SHA-512'', ''RSA''), (''SHA-256'', ''DSA'')]"
  let ?ch = "Some \<lparr>ch_supported_algos = ?adv, ch_session_ticket = []\<rparr>"
  have v: "supports_negotiable_signature_algorithms TLS_V12"
    by (simp add: supports_negotiable_signature_algorithms_def)
  have a: "(if False then map_option cr_supported_algos None
            else map_option ch_supported_algos ?ch) = Some ?adv"
    by simp
  have ne: "?adv \<noteq> []" by simp
  have none: "\<forall>h\<in>set (allowed_signature_hashes ?pol). (h, ''RSA'') \<notin> set ?adv"
    by simp
  show ?thesis
    using choose_hash_no_common_pair [OF v a ne none] .
qed

subsection \<open>Understanding a signature format\<close>

text \<open>
  Claim C4. At a version with negotiable signature algorithms, \<open>understand_sig_format\<close>
  fails with a decoding error when the hash identifier of the wire is empty, and when the
  signature algorithm of the wire is not the algorithm of the key. At a version without
  them it fails with a decoding error when either identifier of the wire is not empty.
\<close>

theorem understand_sig_format_decode_errors:
  "(supports_negotiable_signature_algorithms (m_version st) \<and> hash_algo = [] \<longrightarrow>
      understand_sig_format st key hash_algo sig_algo for_client_auth
        = Inl (Decoding_Error ''Counterparty did not send hash/sig IDS'')) \<and>
   (supports_negotiable_signature_algorithms (m_version st) \<and> sig_algo \<noteq> algo_name key \<longrightarrow>
      understand_sig_format st key hash_algo sig_algo for_client_auth
        = Inl (Decoding_Error
                 (if hash_algo = [] then ''Counterparty did not send hash/sig IDS''
                  else ''Counterparty sent inconsistent key and sig types''))) \<and>
   (\<not> supports_negotiable_signature_algorithms (m_version st) \<and>
    (hash_algo \<noteq> [] \<or> sig_algo \<noteq> []) \<longrightarrow>
      understand_sig_format st key hash_algo sig_algo for_client_auth
        = Inl (Decoding_Error ''Counterparty sent hash/sig IDs with old version''))"
  by (simp add: understand_sig_format_def)

text \<open>
  TLS 1.2 without a hash identifier; TLS 1.2 with an RSA key and the wire naming DSA;
  TLS 1.0 with a hash identifier; TLS 1.0 with a signature algorithm identifier.
\<close>

theorem understand_sig_format_decode_errors_witness:
  "understand_sig_format (fresh_state TLS_V12 ''SHA-256'') \<lparr>algo_name = ''RSA''\<rparr>
     [] ''RSA'' False
     = Inl (Decoding_Error ''Counterparty did not send hash/sig IDS'') \<and>
   understand_sig_format (fresh_state TLS_V12 ''SHA-256'') \<lparr>algo_name = ''RSA''\<rparr>
     ''SHA-256'' ''DSA'' False
     = Inl (Decoding_Error ''Counterparty sent inconsistent key and sig types'') \<and>
   understand_sig_format (fresh_state TLS_V10 ''SHA-256'') \<lparr>algo_name = ''RSA''\<rparr>
     ''SHA-1'' [] False
     = Inl (Decoding_Error ''Counterparty sent hash/sig IDs with old version'') \<and>
   understand_sig_format (fresh_state TLS_V10 ''SHA-256'') \<lparr>algo_name = ''RSA''\<rparr>
     [] ''RSA'' False
     = Inl (Decoding_Error ''Counterparty sent hash/sig IDs with old version'')"
proof -
  have v12: "supports_negotiable_signature_algorithms (m_version (fresh_state TLS_V12 ''SHA-256''))"
    by (simp add: supports_negotiable_signature_algorithms_def fresh_state_def)
  have v10: "\<not> supports_negotiable_signature_algorithms (m_version (fresh_state TLS_V10 ''SHA-256''))"
    by (simp add: supports_negotiable_signature_algorithms_def fresh_state_def)
  have r1: "understand_sig_format (fresh_state TLS_V12 ''SHA-256'') \<lparr>algo_name = ''RSA''\<rparr>
     [] ''RSA'' False = Inl (Decoding_Error ''Counterparty did not send hash/sig IDS'')"
    using understand_sig_format_decode_errors
            [of "fresh_state TLS_V12 ''SHA-256''" "[]" "\<lparr>algo_name = ''RSA''\<rparr>" "''RSA''" False]
      v12 by simp
  have r2: "understand_sig_format (fresh_state TLS_V12 ''SHA-256'') \<lparr>algo_name = ''RSA''\<rparr>
     ''SHA-256'' ''DSA'' False
     = Inl (Decoding_Error ''Counterparty sent inconsistent key and sig types'')"
    using understand_sig_format_decode_errors
            [of "fresh_state TLS_V12 ''SHA-256''" "''SHA-256''" "\<lparr>algo_name = ''RSA''\<rparr>"
                "''DSA''" False]
      v12 by simp
  have r3: "understand_sig_format (fresh_state TLS_V10 ''SHA-256'') \<lparr>algo_name = ''RSA''\<rparr>
     ''SHA-1'' [] False
     = Inl (Decoding_Error ''Counterparty sent hash/sig IDs with old version'')"
    using understand_sig_format_decode_errors
            [of "fresh_state TLS_V10 ''SHA-256''" "''SHA-1''" "\<lparr>algo_name = ''RSA''\<rparr>" "[]" False]
      v10 by simp
  have r4: "understand_sig_format (fresh_state TLS_V10 ''SHA-256'') \<lparr>algo_name = ''RSA''\<rparr>
     [] ''RSA'' False
     = Inl (Decoding_Error ''Counterparty sent hash/sig IDs with old version'')"
    using understand_sig_format_decode_errors
            [of "fresh_state TLS_V10 ''SHA-256''" "[]" "\<lparr>algo_name = ''RSA''\<rparr>" "''RSA''" False]
      v10 by simp
  from r1 r2 r3 r4 show ?thesis by blast
qed

text \<open>
  Claim C7, amended. Verifying a client authentication signature under SSLv3 (the wire
  carries no identifiers there), \<open>understand_sig_format\<close> puts the hash \<open>Raw\<close> in place for
  an RSA key and for a DSA key, and does not for an ECDSA key, which gets \<open>SHA-1\<close>: within
  the branch for DSA and ECDSA the case is restricted to DSA, and the branch for RSA has
  the case too. Any other key algorithm is an invalid argument.
\<close>

theorem understand_sig_format_raw_sslv3:
  assumes "m_version st = SSL_V3"
  shows "understand_sig_format st key [] [] True =
           (if algo_name key = ''RSA'' then Inr (''EMSA3(Raw)'', IEEE_1363)
            else if algo_name key = ''DSA'' then Inr (''EMSA1(Raw)'', DER_SEQUENCE)
            else if algo_name key = ''ECDSA'' then Inr (''EMSA1(SHA-1)'', DER_SEQUENCE)
            else Inl (Invalid_Argument
                        (algo_name key @ '' is invalid/unknown for TLS signatures'')))"
  using assms
  by (simp add: understand_sig_format_def understand_sig_format_padding_def
        supports_negotiable_signature_algorithms_def)

text \<open>
  One key of each of the three algorithms.
\<close>

theorem understand_sig_format_raw_sslv3_witness:
  "understand_sig_format (fresh_state SSL_V3 ''SHA-1'') \<lparr>algo_name = ''RSA''\<rparr> [] [] True
     = Inr (''EMSA3(Raw)'', IEEE_1363) \<and>
   understand_sig_format (fresh_state SSL_V3 ''SHA-1'') \<lparr>algo_name = ''DSA''\<rparr> [] [] True
     = Inr (''EMSA1(Raw)'', DER_SEQUENCE) \<and>
   understand_sig_format (fresh_state SSL_V3 ''SHA-1'') \<lparr>algo_name = ''ECDSA''\<rparr> [] [] True
     = Inr (''EMSA1(SHA-1)'', DER_SEQUENCE)"
proof -
  have v: "m_version (fresh_state SSL_V3 ''SHA-1'') = SSL_V3"
    by (simp add: fresh_state_def)
  have r1: "understand_sig_format (fresh_state SSL_V3 ''SHA-1'') \<lparr>algo_name = ''RSA''\<rparr> [] [] True
     = Inr (''EMSA3(Raw)'', IEEE_1363)"
    using understand_sig_format_raw_sslv3 [OF v, of "\<lparr>algo_name = ''RSA''\<rparr>"] by simp
  have r2: "understand_sig_format (fresh_state SSL_V3 ''SHA-1'') \<lparr>algo_name = ''DSA''\<rparr> [] [] True
     = Inr (''EMSA1(Raw)'', DER_SEQUENCE)"
    using understand_sig_format_raw_sslv3 [OF v, of "\<lparr>algo_name = ''DSA''\<rparr>"] by simp
  have r3: "understand_sig_format (fresh_state SSL_V3 ''SHA-1'') \<lparr>algo_name = ''ECDSA''\<rparr> [] [] True
     = Inr (''EMSA1(SHA-1)'', DER_SEQUENCE)"
    using understand_sig_format_raw_sslv3 [OF v, of "\<lparr>algo_name = ''ECDSA''\<rparr>"] by simp
  from r1 r2 r3 show ?thesis by blast
qed

text \<open>
  Claim C7 as stated restricts the \<open>Raw\<close> case to DSA keys. An RSA key is not a DSA key,
  and under SSLv3 client authentication its padding is built on \<open>Raw\<close>.
\<close>

theorem understand_sig_format_raw_rsa_counterexample:
  "algo_name \<lparr>algo_name = ''RSA''\<rparr> \<noteq> ''DSA'' \<and>
   understand_sig_format (fresh_state SSL_V3 ''SHA-1'') \<lparr>algo_name = ''RSA''\<rparr> [] [] True
     = Inr (''EMSA3(Raw)'', IEEE_1363)"
  by (simp add: understand_sig_format_def understand_sig_format_padding_def
        supports_negotiable_signature_algorithms_def fresh_state_def)

end
